theory Spec2Isabelle
  imports Main "HOL-Library.Word"
begin

unbundle bit_operations_syntax

section \<open>Machine types\<close>

text \<open>
  The firmware runs on an 8-bit AVR: \<open>uint8_t\<close> is 8 bits, \<open>unsigned int\<close> and
  \<open>uint16_t\<close> are 16 bits, \<open>unsigned long\<close> (the type of \<open>millis()\<close>) is 32 bits.
  All arithmetic on them wraps around.
\<close>

type_synonym u8 = "8 word"
type_synonym u16 = "16 word"
type_synonym u32 = "32 word"

section \<open>core\_Timer: the class DccTimer\<close>

text \<open>
  The three members of the class. A method that calls \<open>millis()\<close> takes the value
  it reads as its argument \<open>ms\<close>.
\<close>

record DccTimer =
  runTime :: u32
  notExpired :: bool
  startTime :: u32

text \<open>The member initialisers of the class declaration.\<close>

definition DccTimer_new :: DccTimer where
  "DccTimer_new = \<lparr>runTime = 0, notExpired = False, startTime = 0\<rparr>"

definition setTime :: "u32 \<Rightarrow> u32 \<Rightarrow> DccTimer \<Rightarrow> DccTimer" where
  "setTime val ms t =
     (let t1 = t\<lparr>runTime := val\<rparr>
      in if 0 < runTime t1 then t1\<lparr>startTime := ms, notExpired := True\<rparr>
         else t1\<lparr>notExpired := False\<rparr>)"

definition running :: "u32 \<Rightarrow> DccTimer \<Rightarrow> bool" where
  "running ms t = (if notExpired t then (if ms - startTime t < runTime t then True else False) else False)"

text \<open>\<open>expired()\<close> returns its result and the timer as it leaves it.\<close>

definition expired :: "u32 \<Rightarrow> DccTimer \<Rightarrow> bool \<times> DccTimer" where
  "expired ms t =
     (if notExpired t then
        (if runTime t \<le> ms - startTime t then (True, t\<lparr>notExpired := False\<rparr>)
         else (False, t))
      else (False, t))"

definition start :: "u32 \<Rightarrow> DccTimer \<Rightarrow> DccTimer" where
  "start ms t = t\<lparr>startTime := ms, notExpired := True\<rparr>"

definition restart :: "u32 \<Rightarrow> DccTimer \<Rightarrow> DccTimer" where
  "restart ms t = start ms t"

definition stop :: "DccTimer \<Rightarrow> DccTimer" where
  "stop t = t\<lparr>notExpired := False\<rparr>"

definition getRuntime :: "DccTimer \<Rightarrow> u32" where
  "getRuntime t = runTime t"

definition getElapsed :: "u32 \<Rightarrow> DccTimer \<Rightarrow> u32" where
  "getElapsed ms t = (if running ms t then (ms - startTime t) + 1 else runTime t)"

definition getRemain :: "u32 \<Rightarrow> DccTimer \<Rightarrow> u32" where
  "getRemain ms t = (if running ms t then runTime t - (ms - startTime t) else 0)"

text \<open>
  A polling loop: \<open>expired()\<close> is called once at each clock reading of the list, in
  order, on the timer the previous call left. The results are returned in order.
\<close>

fun polls :: "DccTimer \<Rightarrow> u32 list \<Rightarrow> bool list" where
  "polls t [] = []"
| "polls t (ms # mss) = (case expired ms t of (r, t') \<Rightarrow> r # polls t' mss)"

text \<open>
  The expiry condition of the file's header comment,
  \<open>millis() - startTime >= runTime\<close>, in the wrapping arithmetic of \<open>unsigned long\<close>.
\<close>

definition elapsed :: "DccTimer \<Rightarrow> u32 \<Rightarrow> bool" where
  "elapsed t ms = (runTime t \<le> ms - startTime t)"

section \<open>core\_ProgButton: the class DccButton\<close>

text \<open>
  The configuration and the derived members of the class. The members \<open>m_port\<close>,
  \<open>m_bit\<close> and \<open>m_portRegister\<close> only locate the input pin: the value of
  \<open>(*m_portRegister & m_bit)\<close>, converted to \<open>bool\<close>, is the argument \<open>pin\<close> of
  the methods that sample it, and the value of \<open>millis()\<close> is their argument \<open>ms\<close>.
\<close>

record DccButton =
  m_pin :: u8
  m_dbTime :: u32
  m_puEnable :: bool
  m_invert :: bool
  m_state :: bool
  m_lastState :: bool
  m_changed :: bool
  m_time :: u32
  m_lastChange :: u32

definition attach :: "u8 \<Rightarrow> u32 \<Rightarrow> bool \<Rightarrow> bool \<Rightarrow> u32 \<Rightarrow> bool \<Rightarrow> DccButton \<Rightarrow> DccButton" where
  "attach p dbTime puEnable invert ms pin b =
     (let b1 = b\<lparr>m_pin := p, m_dbTime := dbTime, m_puEnable := puEnable, m_invert := invert\<rparr>;
          b2 = b1\<lparr>m_state := pin\<rparr>;
          b3 = (if m_invert b2 then b2\<lparr>m_state := \<not> m_state b2\<rparr> else b2);
          b4 = b3\<lparr>m_time := ms\<rparr>;
          b5 = b4\<lparr>m_lastState := m_state b4\<rparr>;
          b6 = b5\<lparr>m_changed := False\<rparr>
      in b6\<lparr>m_lastChange := m_time b6\<rparr>)"

text \<open>\<open>read()\<close> returns \<open>m_state\<close> and the button as it leaves it.\<close>

definition read :: "u32 \<Rightarrow> bool \<Rightarrow> DccButton \<Rightarrow> bool \<times> DccButton" where
  "read ms pin b =
     (let pinVal = (if m_invert b then \<not> pin else pin);
          b1 = (if ms - m_lastChange b < m_dbTime b then b\<lparr>m_changed := False\<rparr>
                else
                  (let c1 = b\<lparr>m_lastState := m_state b\<rparr>;
                       c2 = c1\<lparr>m_state := pinVal\<rparr>;
                       c3 = c2\<lparr>m_changed := (m_state c2 \<noteq> m_lastState c2)\<rparr>
                   in if m_changed c3 then c3\<lparr>m_lastChange := ms\<rparr> else c3));
          b2 = b1\<lparr>m_time := ms\<rparr>
      in (m_state b2, b2))"

definition isPressed :: "DccButton \<Rightarrow> bool" where
  "isPressed b = m_state b"

definition isReleased :: "DccButton \<Rightarrow> bool" where
  "isReleased b = (\<not> m_state b)"

definition wasPressed :: "DccButton \<Rightarrow> bool" where
  "wasPressed b = (m_state b \<and> m_changed b)"

definition wasReleased :: "DccButton \<Rightarrow> bool" where
  "wasReleased b = (\<not> m_state b \<and> m_changed b)"

definition pressedFor :: "u32 \<Rightarrow> DccButton \<Rightarrow> bool" where
  "pressedFor ms b = (m_state b \<and> ms \<le> m_time b - m_lastChange b)"

definition releasedFor :: "u32 \<Rightarrow> DccButton \<Rightarrow> bool" where
  "releasedFor ms b = (\<not> m_state b \<and> ms \<le> m_time b - m_lastChange b)"

definition lastChange :: "DccButton \<Rightarrow> u32" where
  "lastChange b = m_lastChange b"

text \<open>
  A sequence of \<open>read()\<close> calls: one call for each sample (clock reading, pin level)
  of the list, in order. The result lists the button after each call.
\<close>

fun reads :: "DccButton \<Rightarrow> (u32 \<times> bool) list \<Rightarrow> DccButton list" where
  "reads b [] = []"
| "reads b (s # ss) = (let b' = snd (read (fst s) (snd s) b) in b' # reads b' ss)"

text \<open>
  The number of press edges in a sequence of accepted states that follows the accepted
  state \<open>prev\<close>: the positions where the state is pressed and the one before is released.
\<close>

fun press_edges :: "bool \<Rightarrow> bool list \<Rightarrow> nat" where
  "press_edges prev [] = 0"
| "press_edges prev (s # ss) = (if s \<and> \<not> prev then 1 else 0) + press_edges s ss"

section \<open>core\_CvValues: the CV store\<close>

text \<open>
  The EEPROM is a byte at every index. \<open>EEPROM.read(i)\<close> is the byte at \<open>i\<close>;
  \<open>EEPROM.update(i, v)\<close> writes \<open>v\<close> at \<open>i\<close> unless the cell already holds it, so it
  leaves the content that a plain write leaves. The array \<open>defaults\<close> of the class
  CvValues is indexed in the same way; the code reads and writes it at the
  indices 0 to \<open>max_cvs\<close> only.
\<close>

type_synonym eeprom = "nat \<Rightarrow> u8"

definition max_cvs :: nat where "max_cvs = 63"

definition myAddrL :: nat where "myAddrL = 1"
definition version :: nat where "version = 7"
definition VID :: nat where "VID = 8"
definition myAddrH :: nat where "myAddrH = 9"
definition myRSAddr :: nat where "myRSAddr = 10"
definition CmdStation :: nat where "CmdStation = 19"
definition Search :: nat where "Search = 23"
definition Restart :: nat where "Restart = 25"
definition DccQuality :: nat where "DccQuality = 26"
definition DecType :: nat where "DecType = 27"
definition RailCom :: nat where "RailCom = 28"
definition Config :: nat where "Config = 29"
definition VID_2 :: nat where "VID_2 = 30"
definition Shortcut :: nat where "Shortcut = 33"
definition PrintDetails :: nat where "PrintDetails = 34"

text \<open>\<open>CvValues::init\<close>: the loop clears the indices 1 to \<open>max_cvs\<close>, then the named
  entries are set.\<close>

definition CvValues_init :: "u8 \<Rightarrow> u8 \<Rightarrow> (nat \<Rightarrow> u8) \<Rightarrow> (nat \<Rightarrow> u8)" where
  "CvValues_init decoderType softwareVersion d =
     (let d0 = fold (\<lambda>i a. a(i := 0)) [1 ..< Suc max_cvs] d;
          d1 = d0(0 := 0b01010101);
          d2 = d1(DecType := decoderType);
          d3 = d2(version := softwareVersion);
          d4 = d3(VID := 0x0D);
          d5 = d4(VID_2 := 0x0D);
          d6 = d5(myAddrL := 0x01);
          d7 = d6(myAddrH := 0x80);
          d8 = d7(Config := 0b10000000);
          d9 = d8(RailCom := 0);
          d10 = d9(CmdStation := 1);
          d11 = d10(DccQuality := 0);
          d12 = d11(Shortcut := 64)
      in d12(PrintDetails := 0))"

text \<open>\<open>myDefaults_class::init\<close>, with \<open>MY_CV1 = 1 + DECODER * 4\<close>, \<open>DECODER = 1\<close> and
  \<open>MY_CV9 = 2\<close>.\<close>

definition myDefaults_init :: "(nat \<Rightarrow> u8) \<Rightarrow> (nat \<Rightarrow> u8)" where
  "myDefaults_init d = (d(myAddrL := 1 + 1 * 4))(myAddrH := 2)"

definition notInitialised :: "eeprom \<Rightarrow> bool" where
  "notInitialised e = (e 0 \<noteq> 0b01010101)"

definition addressNotSet :: "eeprom \<Rightarrow> bool" where
  "addressNotSet e = (e myAddrH = 0x80)"

definition setDefaults :: "(nat \<Rightarrow> u8) \<Rightarrow> eeprom \<Rightarrow> eeprom" where
  "setDefaults d e = fold (\<lambda>i a. a(i := d i)) [0 ..< Suc max_cvs] e"

definition CvValues_read :: "eeprom \<Rightarrow> nat \<Rightarrow> u8" where
  "CvValues_read e n = e n"

definition CvValues_write :: "nat \<Rightarrow> u8 \<Rightarrow> eeprom \<Rightarrow> eeprom" where
  "CvValues_write n v e = e(n := v)"

text \<open>
  \<open>storedAddress()\<close> returns an \<open>unsigned int\<close>, 16 bits. The operands of its sums
  are promoted to 16-bit \<open>int\<close>; the sums stay below \<open>2 ^ 15\<close>, and \<open>0 + 0 - 1\<close>
  converts to 65535, as the 16-bit words compute it.
\<close>

definition storedAddress :: "eeprom \<Rightarrow> u16" where
  "storedAddress e =
     (let cv29 = CvValues_read e Config;
          accDecoder = bit cv29 7;
          outputAddr = bit cv29 6;
          longLocoAddr = bit cv29 5
      in if accDecoder then
           (let address =
                  (if outputAddr then
                     (let cv1 = CvValues_read e myAddrL;
                          cv9 = CvValues_read e myAddrH AND 0b00000111
                      in push_bit 8 (ucast cv9) + ucast cv1)
                   else
                     (let cv1 = CvValues_read e myAddrL AND 0b00111111;
                          cv9 = CvValues_read e myAddrH AND 0b00000111
                      in push_bit 6 (ucast cv9) + ucast cv1 - 1))
            in if 128 \<le> CvValues_read e myAddrH then 65535 else address)
         else
           (let address =
                  (if longLocoAddr then
                     (let cv17 = CvValues_read e 17 AND 0b00111111;
                          cv18 = CvValues_read e 18
                      in push_bit 8 (ucast cv17) + ucast cv18)
                   else
                     (let cv1 = CvValues_read e myAddrL AND 0b01111111
                      in ucast cv1))
            in if address = 0 then 3 else address))"

section \<open>core\_LEDs: the programming LED\<close>

text \<open>
  The members of FlashLed, and \<open>lit\<close> for the level of the LED's pin: true when the
  pin is at \<open>_LED_ON\<close>.
\<close>

definition alwaysOn :: u8 where "alwaysOn = 1"
definition alwaysOff :: u8 where "alwaysOff = 2"
definition singleFlashSerie :: u8 where "singleFlashSerie = 3"
definition neverStopFlashing :: u8 where "neverStopFlashing = 4"

record FlashLed =
  flashOntime :: u8
  flashOfftime :: u8
  flashPause :: u8
  flashCount :: u8
  mode :: u8
  last_flash_time :: u32
  flash_number_now :: u8
  flash_time_remain :: u8
  lit :: bool

definition turn_off :: "FlashLed \<Rightarrow> FlashLed" where
  "turn_off l = l\<lparr>mode := alwaysOff, lit := False\<rparr>"

definition turn_on :: "FlashLed \<Rightarrow> FlashLed" where
  "turn_on l = l\<lparr>mode := alwaysOn, lit := True\<rparr>"

definition flash :: "u32 \<Rightarrow> FlashLed \<Rightarrow> FlashLed" where
  "flash ms l =
     (let l1 = l\<lparr>last_flash_time := ms\<rparr>;
          l2 = l1\<lparr>flash_time_remain := flashOntime l1\<rparr>;
          l3 = l2\<lparr>flash_number_now := 1\<rparr>
      in l3\<lparr>lit := True\<rparr>)"

definition flashFast :: "u32 \<Rightarrow> FlashLed \<Rightarrow> FlashLed" where
  "flashFast ms l =
     flash ms (l\<lparr>flashOntime := 1, flashOfftime := 2, flashCount := 1, flashPause := 2,
                 mode := neverStopFlashing\<rparr>)"

section \<open>core\_Functions: CV commands and address capture\<close>

text \<open>
  The bus receiver of the DCC library is outside this code. Of its command types the
  code names the four below; every other one is \<open>OtherCmd\<close>. Of the parsed
  CV-access command \<open>cvCmd\<close> the code uses the members \<open>number\<close>, \<open>value\<close>,
  \<open>operation\<close> and \<open>writecmd\<close> and the two library methods \<open>writeBit\<close> and
  \<open>verifyBit\<close>, which are fields of the record: the specification describes them as
  setting or clearing one bit of the byte, and comparing one bit of it. Of the parsed
  accessory command \<open>accCmd\<close> it uses the two addresses.
\<close>

datatype CmdType_t = MyAccessoryCmd | AnyAccessoryCmd | MyPomCmd | SmCmd | OtherCmd

datatype operation_t = verifyByte | writeByte | bitManipulation

record CvAccess =
  number :: u16
  "value" :: u8
  operation :: operation_t
  writecmd :: bool
  writeBit :: "u8 \<Rightarrow> u8"
  verifyBit :: "u8 \<Rightarrow> bool"

record Accessory =
  outputAddress :: u16
  decoderAddress :: u16

text \<open>
  The state the functions act on: the EEPROM, the array \<open>cvValues.defaults\<close>, the
  member \<open>LedShouldFlash\<close>, the object \<open>programmingLed\<close>, and the calls made so far
  to \<open>dcc.sendAck()\<close> and \<open>processor.reboot()\<close>, oldest first. \<open>reboot()\<close> jumps to
  address 0 and does not return; no statement follows it on any path of the functions
  below, so it is the last call of the list when it occurs.
\<close>

datatype call = SendAck | Reboot

record decoder =
  EEPROM :: eeprom
  defaults :: "nat \<Rightarrow> u8"
  LedShouldFlash :: bool
  programmingLed :: FlashLed
  calls :: "call list"

definition sendAck :: "decoder \<Rightarrow> decoder" where
  "sendAck s = s\<lparr>calls := calls s @ [SendAck]\<rparr>"

definition reboot :: "decoder \<Rightarrow> decoder" where
  "reboot s = s\<lparr>calls := calls s @ [Reboot]\<rparr>"

text \<open>
  \<open>CvProgramming::processMessage\<close>. \<open>E2END\<close>, the last index of the EEPROM, comes
  from the headers of the microcontroller and is the argument \<open>e2end\<close>; \<open>ms\<close> is
  the value of \<open>millis()\<close> that \<open>flashFast()\<close> reads.
\<close>

definition processMessage :: "nat \<Rightarrow> u32 \<Rightarrow> CmdType_t \<Rightarrow> CvAccess \<Rightarrow> decoder \<Rightarrow> decoder" where
  "processMessage e2end ms cmdType cvCmd s =
     (let RecCvNumber = unat (number cvCmd);
          RecCvData = value cvCmd;
          CurrentEEPROMValue = CvValues_read (EEPROM s) RecCvNumber;
          SM = (cmdType = SmCmd);
          PoM = (cmdType = MyPomCmd)
      in if RecCvNumber \<le> e2end then
           (case operation cvCmd of
              verifyByte \<Rightarrow>
                (let s1 = (if SM then (if CurrentEEPROMValue = RecCvData then sendAck s else s) else s)
                 in if PoM then s1 else s1)
            | writeByte \<Rightarrow>
                (if RecCvNumber = version then s
                 else if RecCvNumber = VID then
                   (if RecCvData = 0x0D then
                      (let s1 = s\<lparr>EEPROM := setDefaults (defaults s) (EEPROM s)\<rparr>;
                           s2 = (if SM then sendAck s1 else s1)
                       in reboot s2)
                    else s)
                 else if RecCvNumber = Restart then
                   (if RecCvData \<noteq> 0 then reboot s else s)
                 else if RecCvNumber = Search then
                   (if RecCvData \<noteq> 0 then
                      s\<lparr>LedShouldFlash := True, programmingLed := flashFast ms (programmingLed s)\<rparr>
                    else
                      s\<lparr>LedShouldFlash := False, programmingLed := turn_off (programmingLed s)\<rparr>)
                 else
                   (let s1 = s\<lparr>EEPROM := CvValues_write RecCvNumber RecCvData (EEPROM s)\<rparr>
                    in if SM then sendAck s1 else s1))
            | bitManipulation \<Rightarrow>
                (if writecmd cvCmd then
                   (let NewEEPROMValue = writeBit cvCmd CurrentEEPROMValue;
                        s1 = s\<lparr>EEPROM := CvValues_write RecCvNumber NewEEPROMValue (EEPROM s)\<rparr>
                    in if SM then sendAck s1 else s1)
                 else
                   (if verifyBit cvCmd CurrentEEPROMValue then (if SM then sendAck s else s)
                    else s)))
         else s)"

text \<open>
  \<open>ProgButton::addressProgramming\<close>, the body of \<open>if (dcc.input())\<close> in its loop:
  what one received command, of type \<open>cmdType\<close> and with the addresses of \<open>accCmd\<close>,
  does to the state.
\<close>

definition addressProgramming_input :: "CmdType_t \<Rightarrow> Accessory \<Rightarrow> decoder \<Rightarrow> decoder" where
  "addressProgramming_input cmdType accCmd s =
     (let cv29 = CvValues_read (EEPROM s) Config;
          accDecoder = bit cv29 7;
          outputAddr = bit cv29 6
      in if accDecoder \<and> (cmdType = MyAccessoryCmd \<or> cmdType = AnyAccessoryCmd) then
           (let s1 =
                  (if outputAddr then
                     (let my_cv1 = (ucast (outputAddress accCmd AND 0b11111111) :: u8);
                          my_cv9 = (ucast (drop_bit 8 (outputAddress accCmd) AND 0b00000111) :: u8)
                      in s\<lparr>EEPROM := CvValues_write myAddrH my_cv9
                                     (CvValues_write myAddrL my_cv1 (EEPROM s))\<rparr>)
                   else
                     (let tempAddress = decoderAddress accCmd + 1;
                          my_cv1 = (ucast (tempAddress AND 0b00111111) :: u8);
                          my_cv9 = (ucast (drop_bit 6 tempAddress AND 0b00000111) :: u8)
                      in s\<lparr>EEPROM := CvValues_write myAddrH my_cv9
                                     (CvValues_write myAddrL my_cv1 (EEPROM s))\<rparr>))
            in reboot s1)
         else s)"

text \<open>\<open>CvProgramming::initPoM\<close>: the loco address given to \<open>locoCmd.setMyAddress\<close>,
  a \<open>uint16_t\<close>.\<close>

definition initPoM :: "eeprom \<Rightarrow> u16" where
  "initPoM e = (if addressNotSet e then 7000 - 1 else 7000 + storedAddress e)"

section \<open>Concrete inputs\<close>

text \<open>
  The file-scope object \<open>programmingLed\<close> before \<open>attach\<close>: every member zero, the
  LED dark.
\<close>

definition FlashLed_zero :: FlashLed where
  "FlashLed_zero = \<lparr>flashOntime = 0, flashOfftime = 0, flashPause = 0, flashCount = 0, mode = 0,
     last_flash_time = 0, flash_number_now = 0, flash_time_remain = 0, lit = False\<rparr>"

text \<open>
  The decoder at its first start: \<open>init(TMC16ChannelSwitchDecoder)\<close> has filled the
  zeroed array \<open>defaults\<close> (decoder type \<open>0b11000010\<close>, software version 10), and
  \<open>setDefaults()\<close> has copied it into an erased EEPROM, all bytes \<open>0xFF\<close>.
\<close>

definition first_boot :: decoder where
  "first_boot =
     \<lparr>EEPROM = setDefaults (CvValues_init 0xC2 10 (\<lambda>_. 0)) (\<lambda>_. 0xFF),
      defaults = CvValues_init 0xC2 10 (\<lambda>_. 0),
      LedShouldFlash = False,
      programmingLed = FlashLed_zero,
      calls = []\<rparr>"

text \<open>A bit operation on bit 0 with bit value 1, for the two methods of \<open>cvCmd\<close>.\<close>

definition set_bit0 :: "u8 \<Rightarrow> u8" where
  "set_bit0 d = set_bit 0 d"

definition bit0_is_set :: "u8 \<Rightarrow> bool" where
  "bit0_is_set d = bit d 0"

text \<open>
  A button attached with the defaults of \<open>attach\<close> (debounce time 25 ms, pull-up, low
  level means pressed) at clock reading 0 while the pin is high, and five samples
  of it: a press that comes too early, the same press once the debounce time has
  passed, a bounce, the release, and a second press that comes too early.
\<close>

definition released0 :: DccButton where
  "released0 = attach 0 25 True True 0 True
     \<lparr>m_pin = 0, m_dbTime = 0, m_puEnable = False, m_invert = False, m_state = False,
      m_lastState = False, m_changed = False, m_time = 0, m_lastChange = 0\<rparr>"

definition bounce_samples :: "(u32 \<times> bool) list" where
  "bounce_samples = [(10, False), (30, False), (40, True), (60, True), (80, False)]"

section \<open>Timer: results\<close>

lemma polls_disarmed: "\<not> notExpired t \<Longrightarrow> polls t mss = replicate (length mss) False"
  by (induction mss) (simp_all add: expired_def)

lemma polls_before:
  "notExpired t \<Longrightarrow> \<forall>ms \<in> set pre. \<not> elapsed t ms \<Longrightarrow>
   polls t (pre @ mss) = replicate (length pre) False @ polls t mss"
  by (induction pre) (simp_all add: expired_def elapsed_def)

lemma polls_fire:
  "notExpired t \<Longrightarrow> elapsed t ms \<Longrightarrow>
   polls t (ms # post) = True # replicate (length post) False"
  by (simp add: expired_def elapsed_def polls_disarmed)

lemma armed_by:
  assumes "(0 < val \<and> t = setTime val ms0 t0 \<and> dur = val)
         \<or> ((t = start ms0 t0 \<or> t = restart ms0 t0) \<and> dur = runTime t0)"
  shows "notExpired t" and "startTime t = ms0" and "runTime t = dur"
  using assms by (auto simp: setTime_def start_def restart_def Let_def)

lemma elapsed_real_time:
  fixes n0 n :: nat
  assumes "n0 \<le> n" and "n - n0 < 2 ^ 32"
  shows "elapsed (t\<lparr>startTime := of_nat n0\<rparr>) (of_nat n) = (unat (runTime t) \<le> n - n0)"
proof -
  have "(of_nat n :: u32) - of_nat n0 = of_nat (n - n0)"
    using assms(1) by simp
  moreover have "unat (of_nat (n - n0) :: u32) = n - n0"
    using assms(2) by (simp add: unat_of_nat)
  ultimately show ?thesis
    by (simp add: elapsed_def word_le_nat_alt)
qed

text \<open>
  C7. A timer is armed at clock reading \<open>ms0\<close>, by \<open>setTime\<close> with a positive
  duration, or by \<open>start\<close> or \<open>restart\<close> with the duration stored before, and is then
  polled with \<open>expired()\<close>. The calls made while less than the duration has passed
  since \<open>ms0\<close> return false, the first call made once the duration has passed since
  \<open>ms0\<close> returns true, and every later call returns false, whatever the clock reads
  (nothing re-arms the timer between the calls). When the duration does not pass
  during the calls, all of them return false. After \<open>stop()\<close> every call returns
  false. Time passed is \<open>millis() - ms0\<close> in the wrapping arithmetic of
  \<open>unsigned long\<close>.
\<close>

theorem expired_exactly_once:
  assumes "(0 < val \<and> t = setTime val ms0 t0 \<and> dur = val)
         \<or> ((t = start ms0 t0 \<or> t = restart ms0 t0) \<and> dur = runTime t0)"
    and "\<forall>ms \<in> set pre. ms - ms0 < dur"
    and "dur \<le> ms1 - ms0"
  shows "polls t (pre @ ms1 # post) = replicate (length pre) False @ True # replicate (length post) False
       \<and> polls t pre = replicate (length pre) False
       \<and> polls (stop t) mss = replicate (length mss) False"
proof -
  have armed: "notExpired t" and st: "startTime t = ms0" and rt: "runTime t = dur"
    using assms(1) by (rule armed_by)+
  have before: "\<forall>ms \<in> set pre. \<not> elapsed t ms"
    using assms(2) by (simp add: elapsed_def st rt not_le)
  have due: "elapsed t ms1"
    using assms(3) by (simp add: elapsed_def st rt)
  have "polls t (pre @ ms1 # post) = replicate (length pre) False @ polls t (ms1 # post)"
    using armed before by (rule polls_before)
  moreover have "polls t (ms1 # post) = True # replicate (length post) False"
    using armed due by (rule polls_fire)
  moreover have "polls t (pre @ []) = replicate (length pre) False @ polls t []"
    using armed before by (rule polls_before)
  moreover have "polls (stop t) mss = replicate (length mss) False"
    by (rule polls_disarmed) (simp add: stop_def)
  ultimately show ?thesis by simp
qed

theorem expired_exactly_once_witness:
  "(0::u32) < 10
   \<and> (1000::u32) - 1000 < 10 \<and> (1005::u32) - 1000 < 10 \<and> (10::u32) \<le> 1010 - 1000
   \<and> polls (setTime 10 1000 DccTimer_new) [1000, 1005, 1010, 1011, 1200]
       = [False, False, True, False, False]
   \<and> polls (stop (setTime 10 1000 DccTimer_new)) [1010, 1011] = [False, False]
   \<and> runTime (stop (setTime 10 0 DccTimer_new)) = 10
   \<and> polls (start 1000 (stop (setTime 10 0 DccTimer_new))) [1005, 1010, 1011] = [False, True, False]
   \<and> polls (restart 1000 (stop (setTime 10 0 DccTimer_new))) [1005, 1010, 1011] = [False, True, False]"
proof -
  let ?t0 = "stop (setTime 10 0 DccTimer_new)"
  have rt: "runTime ?t0 = 10"
    by (simp add: stop_def setTime_def DccTimer_new_def)
  have a: "(0 < (10::u32) \<and> setTime 10 1000 DccTimer_new = setTime 10 1000 DccTimer_new \<and> (10::u32) = 10)
         \<or> ((setTime 10 1000 DccTimer_new = start 1000 DccTimer_new
              \<or> setTime 10 1000 DccTimer_new = restart 1000 DccTimer_new) \<and> (10::u32) = runTime DccTimer_new)"
    by simp
  have b: "\<forall>ms \<in> set [1000, 1005 :: u32]. ms - 1000 < 10"
    by simp
  have c: "(10::u32) \<le> 1010 - 1000"
    by simp
  have s: "(0 < (10::u32) \<and> start 1000 ?t0 = setTime 10 1000 ?t0 \<and> (10::u32) = 10)
         \<or> ((start 1000 ?t0 = start 1000 ?t0 \<or> start 1000 ?t0 = restart 1000 ?t0) \<and> (10::u32) = runTime ?t0)"
    using rt by simp
  have r: "(0 < (10::u32) \<and> restart 1000 ?t0 = setTime 10 1000 ?t0 \<and> (10::u32) = 10)
         \<or> ((restart 1000 ?t0 = start 1000 ?t0 \<or> restart 1000 ?t0 = restart 1000 ?t0) \<and> (10::u32) = runTime ?t0)"
    using rt by simp
  have b1: "\<forall>ms \<in> set [1005 :: u32]. ms - 1000 < 10"
    by simp
  show ?thesis
    using expired_exactly_once [OF a b c, of "[1011, 1200]" "[1010, 1011]"]
      expired_exactly_once [OF s b1 c, of "[1011]" "[]"]
      expired_exactly_once [OF r b1 c, of "[1011]" "[]"] rt
    by simp
qed

text \<open>
  C10. \<open>setTime(0)\<close> leaves the timer disarmed with duration 0. \<open>start()\<close> and
  \<open>restart()\<close> set the armed flag whatever the stored duration is, so after
  \<open>setTime(0)\<close> they arm the timer with duration 0: the next call of \<open>expired()\<close>
  returns true, at any clock reading, and the calls after it return false.
\<close>

theorem start_after_setTime_zero:
  "\<not> notExpired (setTime 0 ms0 t)
   \<and> runTime (setTime 0 ms0 t) = 0
   \<and> notExpired (start ms1 t') \<and> runTime (start ms1 t') = runTime t'
   \<and> notExpired (restart ms1 t') \<and> runTime (restart ms1 t') = runTime t'
   \<and> polls (start ms1 (setTime 0 ms0 t)) (ms2 # mss) = True # replicate (length mss) False
   \<and> polls (restart ms1 (setTime 0 ms0 t)) (ms2 # mss) = True # replicate (length mss) False"
  by (simp add: setTime_def start_def restart_def expired_def polls_disarmed)

section \<open>Button: results\<close>

lemma read_state_change:
  "m_state (snd (read ms pin b)) \<noteq> m_state b \<Longrightarrow>
     m_dbTime b \<le> ms - m_lastChange b \<and> m_lastChange (snd (read ms pin b)) = ms"
  by (auto simp: read_def Let_def split: if_splits)

lemma read_rejected:
  "ms - m_lastChange b < m_dbTime b \<Longrightarrow>
     m_lastChange (snd (read ms pin b)) = m_lastChange b \<and> m_state (snd (read ms pin b)) = m_state b"
  by (simp add: read_def Let_def)

lemma read_wasPressed:
  "wasPressed (snd (read ms pin b)) = (\<not> m_state b \<and> m_state (snd (read ms pin b)))"
  by (auto simp: read_def wasPressed_def Let_def split: if_splits)

lemma reads_nth:
  "i < length ss \<Longrightarrow>
   reads b ss ! i = snd (read (fst (ss ! i)) (snd (ss ! i)) ((b # reads b ss) ! i))"
proof (induction ss arbitrary: b i)
  case Nil
  then show ?case by simp
next
  case (Cons s ss)
  show ?case
  proof (cases i)
    case 0
    then show ?thesis by (simp add: Let_def)
  next
    case (Suc j)
    with Cons.prems have "j < length ss" by simp
    from Cons.IH [OF this, of "snd (read (fst s) (snd s) b)"] Suc
    show ?thesis by (simp add: Let_def)
  qed
qed

lemma reads_press_edges:
  "length (filter wasPressed (reads b ss)) = press_edges (m_state b) (map m_state (reads b ss))"
proof (induction ss arbitrary: b)
  case Nil
  then show ?case by simp
next
  case (Cons s ss)
  show ?case
    using Cons.IH [of "snd (read (fst s) (snd s) b)"]
    by (simp add: Let_def read_wasPressed)
qed

lemma read_no_change:
  "m_state (snd (read ms pin b)) = m_state b \<Longrightarrow> m_lastChange (snd (read ms pin b)) = m_lastChange b"
  by (auto simp: read_def Let_def split: if_splits)

lemma released0_eval:
  "released0 = \<lparr>m_pin = 0, m_dbTime = 25, m_puEnable = True, m_invert = True, m_state = False,
      m_lastState = False, m_changed = False, m_time = 0, m_lastChange = 0\<rparr>"
  by (simp add: released0_def attach_def Let_def)

lemma reads_bounce_samples:
  "reads released0 bounce_samples =
    [\<lparr>m_pin = 0, m_dbTime = 25, m_puEnable = True, m_invert = True,
       m_state = False, m_lastState = False, m_changed = False, m_time = 10, m_lastChange = 0\<rparr>,
     \<lparr>m_pin = 0, m_dbTime = 25, m_puEnable = True, m_invert = True,
       m_state = True, m_lastState = False, m_changed = True, m_time = 30, m_lastChange = 30\<rparr>,
     \<lparr>m_pin = 0, m_dbTime = 25, m_puEnable = True, m_invert = True,
       m_state = True, m_lastState = False, m_changed = False, m_time = 40, m_lastChange = 30\<rparr>,
     \<lparr>m_pin = 0, m_dbTime = 25, m_puEnable = True, m_invert = True,
       m_state = False, m_lastState = True, m_changed = True, m_time = 60, m_lastChange = 60\<rparr>,
     \<lparr>m_pin = 0, m_dbTime = 25, m_puEnable = True, m_invert = True,
       m_state = False, m_lastState = True, m_changed = False, m_time = 80, m_lastChange = 60\<rparr>]"
  by (simp add: released0_eval bounce_samples_def read_def Let_def)

text \<open>
  C8. In every sequence of \<open>read()\<close> calls, at every call: the accepted state
  changes only if at least the debounce time has passed since the last accepted change
  (\<open>m_lastChange\<close>), and then the call records its clock reading as the time of the
  last change; a call that leaves the state as it was, and so every call made before
  the debounce time has passed, leaves \<open>m_lastChange\<close> as it was; and
  \<open>wasPressed()\<close> is true after the call exactly when this call took the state from
  released to pressed. So the calls after which \<open>wasPressed()\<close> is true are as many
  as the press edges of the accepted state.
\<close>

theorem read_debounce:
  assumes "i < length ss"
    and "prev = (b # reads b ss) ! i" and "cur = reads b ss ! i" and "ms = fst (ss ! i)"
  shows "(m_state cur \<noteq> m_state prev \<longrightarrow>
            m_dbTime prev \<le> ms - m_lastChange prev \<and> m_lastChange cur = ms)
       \<and> (m_state cur = m_state prev \<longrightarrow> m_lastChange cur = m_lastChange prev)
       \<and> (ms - m_lastChange prev < m_dbTime prev \<longrightarrow>
            m_lastChange cur = m_lastChange prev \<and> m_state cur = m_state prev)
       \<and> wasPressed cur = (\<not> m_state prev \<and> m_state cur)
       \<and> length (filter wasPressed (reads b ss)) = press_edges (m_state b) (map m_state (reads b ss))"
proof -
  have step: "cur = snd (read ms (snd (ss ! i)) prev)"
    using reads_nth [OF assms(1), of b] assms(2-4) by simp
  show ?thesis
    unfolding step
    using read_state_change [of ms "snd (ss ! i)" prev] read_rejected [of ms prev "snd (ss ! i)"]
      read_no_change [of ms "snd (ss ! i)" prev]
      read_wasPressed [of ms "snd (ss ! i)" prev] reads_press_edges [of b ss]
    by blast
qed

theorem read_debounce_witness:
  "(1::nat) < length bounce_samples
   \<and> m_state (reads released0 bounce_samples ! 1) \<noteq> m_state ((released0 # reads released0 bounce_samples) ! 1)
   \<and> m_dbTime ((released0 # reads released0 bounce_samples) ! 1)
        \<le> 30 - m_lastChange ((released0 # reads released0 bounce_samples) ! 1)
   \<and> m_lastChange (reads released0 bounce_samples ! 1) = 30
   \<and> wasPressed (reads released0 bounce_samples ! 1)
   \<and> map wasPressed (reads released0 bounce_samples) = [False, True, False, False, False]
   \<and> press_edges (m_state released0) (map m_state (reads released0 bounce_samples)) = 1
   \<and> (10::u32) - m_lastChange released0 < m_dbTime released0
   \<and> m_state (reads released0 bounce_samples ! 0) = m_state released0
   \<and> m_lastChange (reads released0 bounce_samples ! 0) = m_lastChange released0"
proof -
  have len: "(1::nat) < length bounce_samples" and len0: "(0::nat) < length bounce_samples"
    by (simp_all add: bounce_samples_def)
  have ms1: "(30::u32) = fst (bounce_samples ! 1)" and ms0: "(10::u32) = fst (bounce_samples ! 0)"
    by (simp_all add: bounce_samples_def)
  note accepted = read_debounce [OF len refl refl ms1, of released0]
  note rejected = read_debounce [OF len0 refl refl ms0, of released0]
  have rej: "(10::u32) - m_lastChange released0 < m_dbTime released0"
    by (simp add: released0_eval)
  have chg: "m_state (reads released0 bounce_samples ! 1)
      \<noteq> m_state ((released0 # reads released0 bounce_samples) ! 1)"
    by (simp add: reads_bounce_samples)
  have flags: "map wasPressed (reads released0 bounce_samples) = [False, True, False, False, False]"
    by (simp add: reads_bounce_samples wasPressed_def)
  have "length (filter wasPressed (reads released0 bounce_samples)) = 1"
    by (simp add: reads_bounce_samples wasPressed_def)
  then have edges: "press_edges (m_state released0) (map m_state (reads released0 bounce_samples)) = 1"
    using accepted by simp
  have st0: "\<not> m_state released0"
    by (simp add: released0_eval)
  show ?thesis
    using len chg rej flags edges st0 accepted rejected by simp
qed

section \<open>CV store: results\<close>

lemmas cv_names = myAddrL_def version_def VID_def myAddrH_def myRSAddr_def CmdStation_def Search_def
  Restart_def DccQuality_def DecType_def RailCom_def Config_def VID_2_def Shortcut_def PrintDetails_def

lemma fold_copy:
  "fold (\<lambda>i a. a(i := d i)) xs e = (\<lambda>j. if j \<in> set xs then d j else e j)"
  by (induction xs arbitrary: e) (auto simp: fun_eq_iff)

lemma setDefaults_apply:
  "setDefaults d e j = (if j \<le> max_cvs then d j else e j)"
  by (auto simp: setDefaults_def fold_copy)

lemma CvValues_init_marker: "CvValues_init dt sv d 0 = 0x55"
  by (simp add: CvValues_init_def Let_def cv_names)

lemma myDefaults_init_marker: "myDefaults_init d 0 = d 0"
  by (simp add: myDefaults_init_def cv_names)

lemma first_boot_Config: "EEPROM first_boot Config = 0x80"
  by (simp add: first_boot_def setDefaults_apply CvValues_init_def Let_def cv_names max_cvs_def)

lemma first_boot_myAddrH: "EEPROM first_boot myAddrH = 0x80"
  by (simp add: first_boot_def setDefaults_apply CvValues_init_def Let_def cv_names max_cvs_def)

lemma first_boot_version: "EEPROM first_boot version = 10"
  by (simp add: first_boot_def setDefaults_apply CvValues_init_def Let_def cv_names max_cvs_def)

lemma first_boot_64: "EEPROM first_boot 64 = 0xFF"
  by (simp add: first_boot_def setDefaults_apply max_cvs_def)

lemma bit_lt_2p:
  fixes a :: u16
  assumes "unat a < 2 ^ k" and "bit a n"
  shows "n < k"
proof -
  have "take_bit k (unat a) = unat a"
    using assms(1) by (simp add: take_bit_nat_eq_self_iff)
  then have "unat (take_bit k a) = unat a"
    by (simp add: unsigned_take_bit_eq)
  then have "take_bit k a = a"
    by (simp add: word_unat_eq_iff)
  then have "bit (take_bit k a) n" using assms(2) by simp
  then show ?thesis by (simp add: bit_take_bit_iff)
qed

lemma seven_mask: "(0x07 :: 'a::len word) = mask 3"
  by (simp add: mask_eq_exp_minus_1)

lemma sixtythree_mask: "(0x3F :: 'a::len word) = mask 6"
  by (simp add: mask_eq_exp_minus_1)

lemma ff_mask: "(0xFF :: 'a::len word) = mask 8"
  by (simp add: mask_eq_exp_minus_1)

lemma split_output:
  fixes a :: u16
  assumes "a \<le> 2047"
  shows "push_bit 8 (ucast ((ucast (drop_bit 8 a AND 0x07) :: u8) AND 0x07)) + ucast (ucast (a AND 0xFF) :: u8) = a"
proof -
  have lt: "unat a < 2 ^ 11"
    using assms by (simp add: word_le_nat_alt)
  have hi: "(ucast ((ucast (drop_bit 8 a AND 0x07) :: u8) AND 0x07) :: u16) = drop_bit 8 a"
    unfolding seven_mask
    by (rule bit_eqI) (auto simp: bit_simps dest: bit_lt_2p [OF lt])
  have lo: "(ucast (ucast (a AND 0xFF) :: u8) :: u16) = take_bit 8 a"
    unfolding ff_mask
    by (rule bit_eqI) (auto simp: bit_simps)
  show ?thesis
    unfolding hi lo by (rule bits_ident)
qed

lemma split_decoder:
  fixes b :: u16
  assumes "b \<le> 511"
  shows "push_bit 6 (ucast ((ucast (drop_bit 6 b AND 0x07) :: u8) AND 0x07)) 
         + ucast ((ucast (b AND 0x3F) :: u8) AND 0x3F) = b"
proof -
  have lt: "unat b < 2 ^ 9"
    using assms by (simp add: word_le_nat_alt)
  have hi: "(ucast ((ucast (drop_bit 6 b AND 0x07) :: u8) AND 0x07) :: u16) = drop_bit 6 b"
    unfolding seven_mask
    by (rule bit_eqI) (auto simp: bit_simps dest: bit_lt_2p [OF lt])
  have lo: "(ucast ((ucast (b AND 0x3F) :: u8) AND 0x3F) :: u16) = take_bit 6 b"
    unfolding sixtythree_mask
    by (rule bit_eqI) (auto simp: bit_simps)
  show ?thesis
    unfolding hi lo by (rule bits_ident)
qed

lemma high_cv_small:
  fixes x :: u16
  shows "\<not> 128 \<le> (ucast (x AND 0x07) :: u8)"
proof -
  have "(ucast (x AND 0x07) :: u8) = ucast x AND 0x07"
    unfolding seven_mask by (rule bit_eqI) (auto simp: bit_simps)
  moreover have "(ucast x :: u8) AND 0x07 \<le> 0x07"
    by (rule word_and_le1)
  ultimately show ?thesis by (simp add: word_le_nat_alt)
qed

lemma succ_le_511:
  fixes a :: u16
  assumes "a \<le> 510"
  shows "a + 1 \<le> 511"
  using assms by (simp add: word_le_nat_alt unat_word_ariths)

lemma addressNotSet_iff: "addressNotSet e = (e myAddrH = 0x80)"
  by (simp add: addressNotSet_def)

text \<open>
  C1. The claim: \<open>addressNotSet()\<close> is true exactly when the top bit of the high
  address CV is set. The code compares the CV with \<open>0x80\<close> alone. A Service-Mode
  write of \<open>0x81\<close> to CV9 on the decoder at its first start leaves a CV9 whose top bit
  is set; \<open>addressNotSet()\<close> is then false, while \<open>storedAddress()\<close>, which tests
  \<open>>= 128\<close>, reports the unassigned value 65535.
\<close>

theorem addressNotSet_at_0x81:
  "EEPROM (processMessage 511 0 SmCmd \<lparr>number = 9, value = 0x81, operation = writeByte,
       writecmd = False, writeBit = set_bit0, verifyBit = bit0_is_set\<rparr> first_boot) myAddrH = 0x81
   \<and> bit (0x81 :: u8) 7 \<and> (128 :: u8) \<le> 0x81
   \<and> \<not> addressNotSet (EEPROM (processMessage 511 0 SmCmd \<lparr>number = 9, value = 0x81,
       operation = writeByte, writecmd = False, writeBit = set_bit0, verifyBit = bit0_is_set\<rparr> first_boot))
   \<and> storedAddress (EEPROM (processMessage 511 0 SmCmd \<lparr>number = 9, value = 0x81,
       operation = writeByte, writecmd = False, writeBit = set_bit0, verifyBit = bit0_is_set\<rparr> first_boot)) = 65535"
proof -
  let ?s = "processMessage 511 0 SmCmd \<lparr>number = 9, value = 0x81, operation = writeByte,
       writecmd = False, writeBit = set_bit0, verifyBit = bit0_is_set\<rparr> first_boot"
  have e: "EEPROM ?s = (EEPROM first_boot)(myAddrH := 0x81)"
    by (simp add: processMessage_def Let_def cv_names CvValues_write_def sendAck_def)
  have "storedAddress (EEPROM ?s) = 65535"
    unfolding e using first_boot_Config
    by (simp add: storedAddress_def CvValues_read_def Let_def cv_names)
  then show ?thesis
    unfolding e by (simp add: addressNotSet_def)
qed

text \<open>
  C2, as amended. The decoder is an accessory decoder and receives an accessory
  command during address capture. With decoder addressing, for every address \<open>a\<close>
  from 0 to 510, the two address CVs that the capture writes for \<open>a\<close> give \<open>a\<close> again
  in \<open>storedAddress()\<close>. With output addressing the same holds for every \<open>a\<close> from 1 to
  2047.
\<close>

theorem address_roundtrip:
  assumes "bit (EEPROM s Config) 7"
    and "cmdType = MyAccessoryCmd \<or> cmdType = AnyAccessoryCmd"
  shows "(\<not> bit (EEPROM s Config) 6 \<longrightarrow> a \<le> 510 \<longrightarrow>
            storedAddress (EEPROM (addressProgramming_input cmdType (accCmd\<lparr>decoderAddress := a\<rparr>) s)) = a)
       \<and> (bit (EEPROM s Config) 6 \<longrightarrow> 1 \<le> a \<longrightarrow> a \<le> 2047 \<longrightarrow>
            storedAddress (EEPROM (addressProgramming_input cmdType (accCmd\<lparr>outputAddress := a\<rparr>) s)) = a)"
proof (intro conjI impI)
  assume dec: "\<not> bit (EEPROM s Config) 6" and le: "a \<le> 510"
  have "push_bit 6 (ucast ((ucast (drop_bit 6 (a + 1) AND 0x07) :: u8) AND 0x07))
         + ucast ((ucast ((a + 1) AND 0x3F) :: u8) AND 0x3F) = a + 1"
    using succ_le_511 [OF le] by (rule split_decoder)
  then show "storedAddress (EEPROM (addressProgramming_input cmdType (accCmd\<lparr>decoderAddress := a\<rparr>) s)) = a"
    using assms dec high_cv_small [of "drop_bit 6 (a + 1)"]
    by (simp add: addressProgramming_input_def storedAddress_def CvValues_read_def CvValues_write_def
        reboot_def Let_def cv_names)
next
  assume out: "bit (EEPROM s Config) 6" and le: "a \<le> 2047"
  have "push_bit 8 (ucast ((ucast (drop_bit 8 a AND 0x07) :: u8) AND 0x07)) + ucast (ucast (a AND 0xFF) :: u8) = a"
    using le by (rule split_output)
  then show "storedAddress (EEPROM (addressProgramming_input cmdType (accCmd\<lparr>outputAddress := a\<rparr>) s)) = a"
    using assms out high_cv_small [of "drop_bit 8 a"]
    by (simp add: addressProgramming_input_def storedAddress_def CvValues_read_def CvValues_write_def
        reboot_def Let_def cv_names)
qed

theorem address_roundtrip_witness:
  "bit (EEPROM first_boot Config) 7
   \<and> \<not> bit (EEPROM first_boot Config) 6
   \<and> (5::u16) \<le> 510
   \<and> storedAddress (EEPROM (addressProgramming_input MyAccessoryCmd
         \<lparr>outputAddress = 21, decoderAddress = 5\<rparr> first_boot)) = 5
   \<and> bit (EEPROM (first_boot\<lparr>EEPROM := (EEPROM first_boot)(Config := 0b11000000)\<rparr>) Config) 6
   \<and> (1::u16) \<le> 2047
   \<and> storedAddress (EEPROM (addressProgramming_input AnyAccessoryCmd
         \<lparr>outputAddress = 2047, decoderAddress = 511\<rparr>
         (first_boot\<lparr>EEPROM := (EEPROM first_boot)(Config := 0b11000000)\<rparr>))) = 2047"
proof -
  let ?acc = "\<lparr>outputAddress = 21, decoderAddress = 5\<rparr>"
  let ?acc2 = "\<lparr>outputAddress = 2047, decoderAddress = 511\<rparr>"
  let ?s2 = "first_boot\<lparr>EEPROM := (EEPROM first_boot)(Config := 0b11000000)\<rparr>"
  have b7: "bit (EEPROM first_boot Config) 7" and b6: "\<not> bit (EEPROM first_boot Config) 6"
    by (simp_all add: first_boot_Config)
  have c7: "bit (EEPROM ?s2 Config) 7" and c6: "bit (EEPROM ?s2 Config) 6"
    by simp_all
  have "storedAddress (EEPROM (addressProgramming_input MyAccessoryCmd (?acc\<lparr>decoderAddress := 5\<rparr>) first_boot)) = 5"
    using address_roundtrip [OF b7, of MyAccessoryCmd 5 ?acc] b6 by simp
  moreover have "storedAddress (EEPROM (addressProgramming_input AnyAccessoryCmd (?acc2\<lparr>outputAddress := 2047\<rparr>) ?s2)) = 2047"
    using address_roundtrip [OF c7, of AnyAccessoryCmd 2047 ?acc2] c6 by simp
  ultimately show ?thesis
    using b7 b6 c6 by simp
qed

text \<open>
  C2 as stated fails at the decoder address 511: \<open>511 + 1 = 512\<close> needs ten bits, the
  capture keeps nine (six in CV1, three in CV9) and writes 0 to both CVs, and
  \<open>storedAddress()\<close> computes \<open>0 + 0 - 1\<close>, which is 65535.
\<close>

theorem address_roundtrip_511_counterexample:
  "bit (EEPROM first_boot Config) 7 \<and> \<not> bit (EEPROM first_boot Config) 6
   \<and> storedAddress (EEPROM (addressProgramming_input MyAccessoryCmd
         \<lparr>outputAddress = 2045, decoderAddress = 511\<rparr> first_boot)) = 65535
   \<and> storedAddress (EEPROM (addressProgramming_input MyAccessoryCmd
         \<lparr>outputAddress = 2045, decoderAddress = 511\<rparr> first_boot)) \<noteq> 511"
  by (simp add: addressProgramming_input_def storedAddress_def CvValues_read_def CvValues_write_def
      reboot_def Let_def first_boot_Config [unfolded Config_def] cv_names)

text \<open>
  C4. When the decoder is configured as an accessory decoder (bit 7 of the Config CV)
  and the high address CV is 128 or more, \<open>storedAddress()\<close> returns 65535. That is the
  largest value of its 16-bit result type, and it is above every accessory address
  (at most 2047).
\<close>

theorem storedAddress_unassigned:
  assumes "bit (e Config) 7" and "128 \<le> e myAddrH"
  shows "storedAddress e = 65535 \<and> (\<forall>x :: u16. x \<le> storedAddress e) \<and> 2047 < storedAddress e"
proof -
  have v: "storedAddress e = 65535"
    using assms by (simp add: storedAddress_def CvValues_read_def Let_def)
  have "x \<le> (65535 :: u16)" for x :: u16
    using unsigned_less [of x, where ?'a = nat] by (simp add: word_le_nat_alt)
  then show ?thesis
    unfolding v by simp
qed

theorem storedAddress_unassigned_witness:
  "bit (EEPROM first_boot Config) 7 \<and> 128 \<le> EEPROM first_boot myAddrH
   \<and> storedAddress (EEPROM first_boot) = 65535"
proof -
  have a: "bit (EEPROM first_boot Config) 7" and b: "128 \<le> EEPROM first_boot myAddrH"
    by (simp_all add: first_boot_Config first_boot_myAddrH)
  show ?thesis
    using storedAddress_unassigned [OF a b] a b by simp
qed

text \<open>
  C5. \<open>notInitialised()\<close> is true exactly when the EEPROM byte at index 0 differs from
  \<open>0b01010101\<close>. \<open>setDefaults()\<close> copies \<open>defaults[0]\<close> there, and \<open>init\<close> sets
  \<open>defaults[0]\<close> to that constant whatever its arguments are (\<open>myDefaults_class::init\<close>
  does not touch it): after \<open>setDefaults()\<close>, \<open>notInitialised()\<close> is false, for every
  content the EEPROM had before.
\<close>

theorem notInitialised_marker:
  "notInitialised e = (e 0 \<noteq> 0b01010101)
   \<and> notInitialised (setDefaults d e) = (d 0 \<noteq> 0b01010101)
   \<and> \<not> notInitialised (setDefaults (CvValues_init decoderType softwareVersion d) e)
   \<and> \<not> notInitialised (setDefaults (myDefaults_init (CvValues_init decoderType softwareVersion d)) e)"
  by (simp add: notInitialised_def setDefaults_apply CvValues_init_marker myDefaults_init_marker)

section \<open>CV commands: results\<close>

text \<open>
  C3, as amended. A CV-access command whose CV number is above \<open>E2END\<close>, the last
  index of the EEPROM, changes nothing: no write to the EEPROM, no acknowledge, no
  reboot, no change of the LED, for every command type (Service Mode and
  Programming-on-Main among them).
\<close>

theorem processMessage_out_of_range:
  "e2end < unat (number cvCmd) \<Longrightarrow> processMessage e2end ms cmdType cvCmd s = s"
  by (simp add: processMessage_def Let_def)

theorem processMessage_out_of_range_witness:
  "(511::nat) < unat (number \<lparr>number = 512, value = 1, operation = writeByte, writecmd = False,
         writeBit = set_bit0, verifyBit = bit0_is_set\<rparr>)
   \<and> processMessage 511 0 SmCmd \<lparr>number = 512, value = 1, operation = writeByte, writecmd = False,
         writeBit = set_bit0, verifyBit = bit0_is_set\<rparr> first_boot = first_boot"
  using processMessage_out_of_range [of 511 "\<lparr>number = 512, value = 1, operation = writeByte, writecmd = False,
         writeBit = set_bit0, verifyBit = bit0_is_set\<rparr>" 0 SmCmd first_boot]
  by simp

text \<open>
  C3 as stated, with the range 0 to \<open>max_cvs = 63\<close>, fails: the code bounds the CV
  number by \<open>E2END\<close>, not by \<open>max_cvs\<close>. With an EEPROM of 512 bytes
  (\<open>E2END = 511\<close>; any value from 64 on gives the same), a \<open>WriteByte\<close> to CV 64 is
  written to the EEPROM in both modes and acknowledged in Service Mode.
\<close>

theorem processMessage_cv64_counterexample:
  "max_cvs < unat (number \<lparr>number = 64, value = 1, operation = writeByte, writecmd = False,
         writeBit = set_bit0, verifyBit = bit0_is_set\<rparr>)
   \<and> EEPROM (processMessage 511 0 SmCmd \<lparr>number = 64, value = 1, operation = writeByte, writecmd = False,
         writeBit = set_bit0, verifyBit = bit0_is_set\<rparr> first_boot) 64 \<noteq> EEPROM first_boot 64
   \<and> calls (processMessage 511 0 SmCmd \<lparr>number = 64, value = 1, operation = writeByte, writecmd = False,
         writeBit = set_bit0, verifyBit = bit0_is_set\<rparr> first_boot) \<noteq> calls first_boot
   \<and> EEPROM (processMessage 511 0 MyPomCmd \<lparr>number = 64, value = 1, operation = writeByte, writecmd = False,
         writeBit = set_bit0, verifyBit = bit0_is_set\<rparr> first_boot) 64 \<noteq> EEPROM first_boot 64"
  by (simp add: processMessage_def Let_def cv_names max_cvs_def CvValues_write_def CvValues_read_def
      sendAck_def first_boot_64)

text \<open>
  C6. A Service-Mode \<open>WriteByte\<close> of \<open>0x0D\<close> to CV8, the vendor ID (CV8 lies inside the
  EEPROM), on any state: the EEPROM indices 0 to \<open>max_cvs\<close> hold the defaults
  afterwards, and the calls made are \<open>sendAck()\<close> and then \<open>reboot()\<close>, in this order.
\<close>

theorem vendor_id_reset:
  assumes "VID \<le> e2end" and "unat (number cvCmd) = VID" and "operation cvCmd = writeByte"
    and "value cvCmd = 0x0D"
  shows "processMessage e2end ms SmCmd cvCmd s =
           s\<lparr>EEPROM := setDefaults (defaults s) (EEPROM s), calls := calls s @ [SendAck, Reboot]\<rparr>
       \<and> (\<forall>i \<le> max_cvs. EEPROM (processMessage e2end ms SmCmd cvCmd s) i = defaults s i)"
  using assms
  by (simp add: processMessage_def Let_def cv_names sendAck_def reboot_def setDefaults_apply)

theorem vendor_id_reset_witness:
  "VID \<le> (511::nat)
   \<and> EEPROM (processMessage 511 0 SmCmd \<lparr>number = 8, value = 0x0D, operation = writeByte,
        writecmd = False, writeBit = set_bit0, verifyBit = bit0_is_set\<rparr>
        (first_boot\<lparr>EEPROM := (\<lambda>_. 0)\<rparr>)) Config = 0b10000000
   \<and> calls (processMessage 511 0 SmCmd \<lparr>number = 8, value = 0x0D, operation = writeByte,
        writecmd = False, writeBit = set_bit0, verifyBit = bit0_is_set\<rparr>
        (first_boot\<lparr>EEPROM := (\<lambda>_. 0)\<rparr>)) = [SendAck, Reboot]"
proof -
  let ?c = "\<lparr>number = 8, value = 0x0D, operation = writeByte,
        writecmd = False, writeBit = set_bit0, verifyBit = bit0_is_set\<rparr>"
  let ?s = "first_boot\<lparr>EEPROM := (\<lambda>_. 0)\<rparr>"
  have r: "VID \<le> (511::nat)" and n: "unat (number ?c) = VID"
    by (simp_all add: VID_def)
  have reset: "processMessage 511 0 SmCmd ?c ?s =
           ?s\<lparr>EEPROM := setDefaults (defaults ?s) (EEPROM ?s), calls := calls ?s @ [SendAck, Reboot]\<rparr>
       \<and> (\<forall>i \<le> max_cvs. EEPROM (processMessage 511 0 SmCmd ?c ?s) i = defaults ?s i)"
    by (rule vendor_id_reset [OF r n]) simp_all
  have all: "\<forall>i \<le> max_cvs. EEPROM (processMessage 511 0 SmCmd ?c ?s) i = defaults ?s i"
    by (rule reset [THEN conjunct2])
  have "Config \<le> max_cvs"
    by (simp add: Config_def max_cvs_def)
  with all have "EEPROM (processMessage 511 0 SmCmd ?c ?s) Config = defaults ?s Config"
    by blast
  moreover have "defaults ?s Config = 0b10000000"
    by (simp add: first_boot_def CvValues_init_def Let_def cv_names)
  moreover have "calls (processMessage 511 0 SmCmd ?c ?s) = [SendAck, Reboot]"
    unfolding reset [THEN conjunct1] by (simp add: first_boot_def)
  ultimately show ?thesis
    using r by simp
qed

text \<open>
  C9. A \<open>BitManipulation\<close> command with the write flag set, on any CV number inside the
  EEPROM and for any command type: the stored byte becomes what \<open>writeBit\<close> makes of
  it, the acknowledge is sent in Service Mode only, and nothing else happens: no
  reboot, no reset to the defaults, the LED and \<open>LedShouldFlash\<close> as before. This
  holds at CV7, CV8, CV23 and CV25 as at every other index.
\<close>

theorem bitManipulation_write:
  assumes "unat (number cvCmd) \<le> e2end" and "operation cvCmd = bitManipulation" and "writecmd cvCmd"
  shows "processMessage e2end ms cmdType cvCmd s =
           s\<lparr>EEPROM := (EEPROM s)(unat (number cvCmd) := writeBit cvCmd (EEPROM s (unat (number cvCmd)))),
             calls := calls s @ (if cmdType = SmCmd then [SendAck] else [])\<rparr>"
  using assms
  by (simp add: processMessage_def Let_def sendAck_def CvValues_write_def CvValues_read_def)

theorem bitManipulation_write_witness:
  "unat (number \<lparr>number = 7, value = 0, operation = bitManipulation, writecmd = True,
         writeBit = set_bit0, verifyBit = bit0_is_set\<rparr>) \<le> (511::nat)
   \<and> EEPROM first_boot version = 10
   \<and> EEPROM (processMessage 511 0 MyPomCmd \<lparr>number = 7, value = 0, operation = bitManipulation, writecmd = True,
         writeBit = set_bit0, verifyBit = bit0_is_set\<rparr> first_boot) version = 11
   \<and> calls (processMessage 511 0 MyPomCmd \<lparr>number = 7, value = 0, operation = bitManipulation, writecmd = True,
         writeBit = set_bit0, verifyBit = bit0_is_set\<rparr> first_boot) = []
   \<and> processMessage 511 0 MyPomCmd \<lparr>number = 7, value = 0, operation = writeByte, writecmd = True,
         writeBit = set_bit0, verifyBit = bit0_is_set\<rparr> first_boot = first_boot"
proof -
  let ?c = "\<lparr>number = 7, value = 0, operation = bitManipulation, writecmd = True,
         writeBit = set_bit0, verifyBit = bit0_is_set\<rparr>"
  have r: "unat (number ?c) \<le> (511::nat)" by simp
  have eq: "processMessage 511 0 MyPomCmd ?c first_boot =
      first_boot\<lparr>EEPROM := (EEPROM first_boot)(unat (number ?c) := writeBit ?c (EEPROM first_boot (unat (number ?c)))),
             calls := calls first_boot @ (if MyPomCmd = SmCmd then [SendAck] else [])\<rparr>"
    by (rule bitManipulation_write [OF r]) simp_all
  have a: "EEPROM (processMessage 511 0 MyPomCmd ?c first_boot) version = 11"
    unfolding eq using first_boot_version by (simp add: version_def set_bit0_def)
  have b: "calls (processMessage 511 0 MyPomCmd ?c first_boot) = []"
    unfolding eq by (simp add: first_boot_def)
  have c: "processMessage 511 0 MyPomCmd (?c\<lparr>operation := writeByte\<rparr>) first_boot = first_boot"
    by (simp add: processMessage_def Let_def version_def)
  show ?thesis
    using r a b c first_boot_version by simp
qed

end
